theory Spec2Isabelle
  imports
    Complex_Main
    "HOL-Library.Word"
    "HOL-Library.Product_Lexorder"
    "HOL-Library.List_Lexorder"
    "HOL-Library.Char_ord"
    "HOL-Library.AList"
    "HOL-Library.Multiset"
begin

section \<open>Exceptions\<close>

text \<open>
  The three exception classes of \<^verbatim>\<open>errors.py\<close>; the built-in \<^verbatim>\<open>KeyError\<close> of a dictionary
  access and \<^verbatim>\<open>ValueError\<close> of \<^verbatim>\<open>SplitStrategy(...)\<close> on an unknown tag; and the three
  signals of the \<^verbatim>\<open>decimal\<close> module that the default context traps, which are raised as
  exceptions of the same names.
\<close>

datatype error =
  ValidationError | RoundingError | StrategyError | KeyError | ValueError
  | InvalidOperation | DivisionByZero | Overflow

section \<open>Decimal amounts\<close>

text \<open>
  The package computes with Python's \<^verbatim>\<open>decimal.Decimal\<close> under the default context:
  precision 28, ROUND_HALF_EVEN, Emax 999999, Emin -999999, traps on InvalidOperation,
  DivisionByZero and Overflow. A finite Decimal is modelled by its numeric value, a
  rational number: Python compares Decimals numerically, so \<^verbatim>\<open>Decimal("0.50")\<close> and
  \<^verbatim>\<open>Decimal("0.5")\<close> are one value here as they are equal there, and comparisons are
  exact whatever the number of digits. Every arithmetic operation, unary minus and
  \<^verbatim>\<open>abs\<close> included, computes the exact result and then rounds it to the context
  (\<open>context_round\<close> below); \<^verbatim>\<open>quantize\<close> does not round to the precision but raises when
  its result does not fit it. With the three traps enabled no operation on finite
  operands returns a NaN or an infinity, so these special values, which only a caller
  could pass in, are outside the model.
\<close>

type_synonym decimal = rat

definition pow10 :: "int \<Rightarrow> rat" where
  "pow10 e = (if 0 \<le> e then 10 ^ nat e else 1 / 10 ^ nat (- e))"

text \<open>
  ROUND_HALF_EVEN to an integer, as the decimal module does it: on the magnitude, keeping
  the integer part when the discarded part is below one half, stepping away from zero
  when it is above, and on an exact half keeping the integer part if it is even; the sign
  is put back afterwards.
\<close>

definition round_magnitude :: "rat \<Rightarrow> int" where
  "round_magnitude a =
     (let f = \<lfloor>a\<rfloor>; d = a - of_int f
      in if d < 1 / 2 then f else if 1 / 2 < d then f + 1
         else if even f then f else f + 1)"

definition round_half_even :: "rat \<Rightarrow> int" where
  "round_half_even x = (if x < 0 then - round_magnitude (- x) else round_magnitude x)"

text \<open>
  The number of decimal digits of a positive integer, counted eight at a time while
  there are that many.
\<close>

function num_digits :: "int \<Rightarrow> nat" where
  "num_digits n =
     (if n \<le> 0 then 0
      else if n < 10 then 1
      else if n < 100000000 then Suc (num_digits (n div 10))
      else 8 + num_digits (n div 100000000))"
  by pat_completeness auto
termination
  by (relation "measure nat") auto

text \<open>
  The adjusted exponent of a nonzero value: the position of its leading digit. For a
  fraction \<open>p / q\<close> the difference of the numbers of digits of \<open>p\<close> and \<open>q\<close> is the
  position or one above it.
\<close>

definition digits_gap :: "int \<times> int \<Rightarrow> int" where
  "digits_gap pq = int (num_digits (fst pq)) - int (num_digits (snd pq))"

definition leading_position :: "rat \<Rightarrow> int \<Rightarrow> int" where
  "leading_position a k = (if pow10 k \<le> a then k else k - 1)"

definition adjusted_exponent :: "rat \<Rightarrow> int" where
  "adjusted_exponent x = leading_position \<bar>x\<bar> (digits_gap (quotient_of \<bar>x\<bar>))"

definition prec :: int where
  "prec = 28"

definition emax :: int where
  "emax = 999999"

text \<open>\<^verbatim>\<open>Etiny = Emin - prec + 1\<close>, the least exponent a result of the context can have.\<close>

definition etiny :: int where
  "etiny = - 1000026"

text \<open>
  Rounding an exact result to the context, as \<^verbatim>\<open>Decimal._fix\<close> does it. A result whose
  leading digit lies above Emax raises Overflow. Otherwise a nonzero result keeps 28
  significant digits, or fewer when that would take its exponent below Etiny (a subnormal
  result; Underflow is not trapped, so the result may be rounded to zero). Rounding can
  carry into a new leading digit; when that takes a result from Emax to above it, the
  operation raises Overflow as well.
\<close>

text \<open>
  A value is left as it is when it has no digit below the exponent it is rounded to; for
  a fraction \<open>p / q\<close> in lowest terms and an exponent that is not positive this is the
  case when \<open>q\<close> divides the power of ten.
\<close>

definition fits_exponent :: "int \<times> int \<Rightarrow> int \<Rightarrow> bool" where
  "fits_exponent pq e = (e \<le> 0 \<and> 10 ^ nat (- e) mod snd pq = 0)"

definition round_to_exponent :: "rat \<Rightarrow> int \<Rightarrow> rat" where
  "round_to_exponent x e =
     (if fits_exponent (quotient_of x) e then x
      else of_int (round_half_even (x / pow10 e)) * pow10 e)"

definition check_carry :: "int \<Rightarrow> rat \<Rightarrow> error + decimal" where
  "check_carry a r =
     (if a = emax then (if emax < adjusted_exponent r then Inl Overflow else Inr r)
      else Inr r)"

definition round_at :: "rat \<Rightarrow> int \<Rightarrow> error + decimal" where
  "round_at x a =
     (if emax < a then Inl Overflow
      else check_carry a (round_to_exponent x (max (a - (prec - 1)) etiny)))"

definition context_round :: "rat \<Rightarrow> error + decimal" where
  "context_round x = (if x = 0 then Inr 0 else round_at x (adjusted_exponent x))"

definition dec_add :: "decimal \<Rightarrow> decimal \<Rightarrow> error + decimal" where
  "dec_add a b = context_round (a + b)"

definition dec_sub :: "decimal \<Rightarrow> decimal \<Rightarrow> error + decimal" where
  "dec_sub a b = context_round (a - b)"

definition dec_mul :: "decimal \<Rightarrow> decimal \<Rightarrow> error + decimal" where
  "dec_mul a b = context_round (a * b)"

definition dec_div :: "decimal \<Rightarrow> decimal \<Rightarrow> error + decimal" where
  "dec_div a b =
     (if b = 0 then Inl (if a = 0 then InvalidOperation else DivisionByZero)
      else context_round (a / b))"

text \<open>\<^verbatim>\<open>-x\<close> and \<^verbatim>\<open>abs(x)\<close> round their result to the context like any other operation.\<close>

definition dec_neg :: "decimal \<Rightarrow> error + decimal" where
  "dec_neg a = context_round (- a)"

definition dec_abs :: "decimal \<Rightarrow> error + decimal" where
  "dec_abs a = context_round \<bar>a\<bar>"

text \<open>\<^verbatim>\<open>abs(a - b)\<close>, the form in which the package compares two amounts.\<close>

definition abs_diff :: "decimal \<Rightarrow> decimal \<Rightarrow> error + decimal" where
  "abs_diff a b = (case dec_sub a b of Inl e \<Rightarrow> Inl e | Inr d \<Rightarrow> dec_abs d)"

text \<open>
  \<^verbatim>\<open>sum(...)\<close> starts from the integer 0 and adds the items from left to right; the
  first addition, \<^verbatim>\<open>0 + v\<close>, is a Decimal addition as well, and every partial sum is
  rounded to the context.
\<close>

fun sum_from :: "decimal \<Rightarrow> decimal list \<Rightarrow> error + decimal" where
  "sum_from acc [] = Inr acc"
| "sum_from acc (v # vs) =
     (case dec_add acc v of Inl e \<Rightarrow> Inl e | Inr s \<Rightarrow> sum_from s vs)"

text \<open>
  \<^verbatim>\<open>x.quantize(q, rounding=ROUND_HALF_EVEN)\<close> rounds \<open>x\<close> to the exponent of \<open>q\<close>; only
  the exponent of the second operand matters, not its value. \<open>quantize x e\<close> is the
  result for a quantizer of exponent \<open>e\<close> between Etiny and Emax. The coefficient of the
  result is \<open>x\<close> in units of \<open>10\<close> to the power \<open>e\<close>, rounded half to even; when it has
  more than 28 digits the operation raises InvalidOperation.
\<close>

definition check_digits :: "int \<Rightarrow> int \<Rightarrow> error + decimal" where
  "check_digits k e =
     (if 10 ^ 28 \<le> \<bar>k\<bar> then Inl InvalidOperation else Inr (of_int k * pow10 e))"

definition quantize :: "decimal \<Rightarrow> int \<Rightarrow> error + decimal" where
  "quantize x e = check_digits (round_half_even (x / pow10 e)) e"

text \<open>
  The exponent of \<^verbatim>\<open>Decimal(10) ** n\<close> for an integer \<open>n\<close>. A negative power is
  \<^verbatim>\<open>Decimal("1E-2")\<close>, of exponent \<open>n\<close>; below Etiny the power underflows to a zero of
  exponent Etiny. A non-negative power is exact and keeps the exponent 0 of
  \<^verbatim>\<open>Decimal(10)\<close>: \<^verbatim>\<open>Decimal(10) ** 2\<close> is \<^verbatim>\<open>Decimal("100")\<close>; beyond 27 zeros the
  coefficient is cut to the 28 digits of the context, and from \<open>n = 1000000\<close> on the
  power raises Overflow.
\<close>

definition ten_power_exponent :: "int \<Rightarrow> error + int" where
  "ten_power_exponent n =
     (if emax < n then Inl Overflow
      else if n < etiny then Inr etiny
      else if n < 0 then Inr n
      else if n \<le> 27 then Inr 0
      else Inr (n - 27))"

section \<open>utils.py: rounding\<close>

text \<open>
  \<^verbatim>\<open>
  def round_money(amount, places=2):
      quantizer = Decimal(10) ** -places
      return amount.quantize(quantizer, rounding=ROUND_HALF_EVEN)
  \<close>
\<close>

definition round_money :: "decimal \<Rightarrow> int \<Rightarrow> error + decimal" where
  "round_money amount places =
     (case ten_power_exponent (- places) of
        Inl e \<Rightarrow> Inl e
      | Inr q \<Rightarrow> quantize amount q)"



section \<open>models.py: Person\<close>

text \<open>
  \<^verbatim>\<open>
  @dataclass(frozen=True, eq=True, order=False)
  class Person:
      name: str
      id: UUID = field(default_factory=uuid4)
  \<close>
  A UUID is a 128-bit integer. The field \<^verbatim>\<open>id\<close> is called \<open>ident\<close> here, \<open>id\<close> being the
  identity function of HOL. With \<^verbatim>\<open>eq=True\<close> the dataclass compares its instances field by
  field, as the tuples \<^verbatim>\<open>(name, id)\<close>; this is the equality of the record.
\<close>

record person =
  name :: string
  ident :: "128 word"

text \<open>
  \<^verbatim>\<open>str.strip()\<close> removes white space; a name or description is refused when nothing else
  is in it. These are the characters below 256 for which \<^verbatim>\<open>str.isspace\<close> holds.
\<close>

definition isspace :: "char \<Rightarrow> bool" where
  "isspace c = (of_char c \<in> {9, 10, 11, 12, 13, 28, 29, 30, 31, 32, 133, 160 :: nat})"

definition blank :: "string \<Rightarrow> bool" where
  "blank s = list_all isspace s"

text \<open>\<^verbatim>\<open>Person.__post_init__\<close>: the name must not be empty after trimming.\<close>

definition Person :: "string \<Rightarrow> 128 word \<Rightarrow> error + person" where
  "Person n i = (if blank n then Inl ValidationError else Inr \<lparr>name = n, ident = i\<rparr>)"

section \<open>Dictionaries keyed by Person\<close>

text \<open>
  A \<^verbatim>\<open>Dict[Person, Decimal]\<close> is an association list in insertion order, which is the
  iteration order of a Python dictionary. \<^verbatim>\<open>d[k] = v\<close> is \<open>AList.update\<close>: it replaces
  the value in place when the key is present and appends the entry otherwise.
  \<^verbatim>\<open>d[k] += v\<close> reads the key first and raises \<^verbatim>\<open>KeyError\<close> when it is absent; the
  sum is a Decimal addition, rounded to the context.
\<close>

type_synonym balances = "(person \<times> decimal) list"

definition dict_add :: "person \<Rightarrow> decimal \<Rightarrow> balances \<Rightarrow> error + balances" where
  "dict_add k v d =
     (case map_of d k of
        None \<Rightarrow> Inl KeyError
      | Some b \<Rightarrow>
          (case dec_add b v of
             Inl e \<Rightarrow> Inl e
           | Inr s \<Rightarrow> Inr (AList.update k s d)))"

definition dict_sub :: "person \<Rightarrow> decimal \<Rightarrow> balances \<Rightarrow> error + balances" where
  "dict_sub k v d =
     (case map_of d k of
        None \<Rightarrow> Inl KeyError
      | Some b \<Rightarrow>
          (case dec_sub b v of
             Inl e \<Rightarrow> Inl e
           | Inr s \<Rightarrow> Inr (AList.update k s d)))"

text \<open>\<^verbatim>\<open>sum(d.values())\<close>\<close>

definition sum_values :: "balances \<Rightarrow> error + decimal" where
  "sum_values d = sum_from 0 (map snd d)"

section \<open>utils.py: reconciliation\<close>

text \<open>
  \<^verbatim>\<open>
  def validate_amount(amount, name="amount"):
      if amount < 0:
          raise ValidationError(...)
  \<close>
\<close>

definition validate_amount :: "decimal \<Rightarrow> error + unit" where
  "validate_amount amount = (if amount < 0 then Inl ValidationError else Inr ())"

text \<open>
  \<^verbatim>\<open>
  def distribute_remainder(balances, remainder, tolerance=Decimal("0.01")):
      if abs(remainder) > tolerance:
          raise RoundingError(...)
      if remainder == 0:
          return balances.copy()
      sorted_people = sorted(balances.keys(),
                             key=lambda p: (abs(balances[p]), p.name, p.id))
      adjusted = balances.copy()
      remainder_remaining = remainder
      increment = Decimal("0.01") if remainder > 0 else Decimal("-0.01")
      for person in sorted_people:
          if remainder_remaining == 0:
              break
          adjusted[person] += increment
          remainder_remaining -= increment
      return adjusted
  \<close>
  The keys are sorted through their entries, which carry the balance the key function
  looks up. \<^verbatim>\<open>sorted\<close> calls the key function once for every item, in order, before it
  compares anything, so an \<^verbatim>\<open>abs\<close> that overflows raises there. \<open>sort_key\<close> is a stable
  insertion sort, as \<^verbatim>\<open>sorted\<close> is stable.
\<close>

fun abs_keys :: "balances \<Rightarrow> error + (decimal \<times> person) list" where
  "abs_keys [] = Inr []"
| "abs_keys ((p, b) # rest) =
     (case dec_abs b of
        Inl e \<Rightarrow> Inl e
      | Inr a \<Rightarrow> (case abs_keys rest of Inl e \<Rightarrow> Inl e | Inr ks \<Rightarrow> Inr ((a, p) # ks)))"

definition sorted_people :: "balances \<Rightarrow> error + person list" where
  "sorted_people balances =
     (case abs_keys balances of
        Inl e \<Rightarrow> Inl e
      | Inr ks \<Rightarrow> Inr (map snd (sort_key (\<lambda>(a, p). (a, name p, ident p)) ks)))"

fun distribute_loop :: "person list \<Rightarrow> decimal \<Rightarrow> decimal \<Rightarrow> balances \<Rightarrow> error + balances" where
  "distribute_loop [] remainder_remaining increment adjusted = Inr adjusted"
| "distribute_loop (person # rest) remainder_remaining increment adjusted =
     (if remainder_remaining = 0 then Inr adjusted
      else case dict_add person increment adjusted of
             Inl e \<Rightarrow> Inl e
           | Inr adjusted' \<Rightarrow>
               (case dec_sub remainder_remaining increment of
                  Inl e \<Rightarrow> Inl e
                | Inr remaining' \<Rightarrow> distribute_loop rest remaining' increment adjusted'))"

definition distribute_remainder :: "balances \<Rightarrow> decimal \<Rightarrow> decimal \<Rightarrow> error + balances" where
  "distribute_remainder balances remainder tolerance =
     (case dec_abs remainder of
        Inl e \<Rightarrow> Inl e
      | Inr a \<Rightarrow>
          if a > tolerance then Inl RoundingError
          else if remainder = 0 then Inr balances
          else case sorted_people balances of
                 Inl e \<Rightarrow> Inl e
               | Inr ps \<Rightarrow>
                   let increment = (if remainder > 0 then 1 / 100 else - (1 / 100))
                   in distribute_loop ps remainder increment balances)"

text \<open>
  \<^verbatim>\<open>
  def ensure_zero_sum(balances, tolerance=Decimal("0.01")):
      total = sum(balances.values())
      if abs(total) <= tolerance:
          if total != 0:
              return distribute_remainder(balances, total, tolerance)
          return balances.copy()
      raise RoundingError(...)
  \<close>
\<close>

definition ensure_zero_sum :: "balances \<Rightarrow> decimal \<Rightarrow> error + balances" where
  "ensure_zero_sum balances tolerance =
     (case sum_values balances of
        Inl e \<Rightarrow> Inl e
      | Inr total_sum \<Rightarrow>
          (case dec_abs total_sum of
             Inl e \<Rightarrow> Inl e
           | Inr a \<Rightarrow>
               if a \<le> tolerance then
                 (if total_sum \<noteq> 0 then distribute_remainder balances total_sum tolerance
                  else Inr balances)
               else Inl RoundingError))"

section \<open>models.py: Activity\<close>

datatype SplitStrategy = EQUAL | WEIGHTED | FIXED_SHARES

text \<open>
  The field \<^verbatim>\<open>payer: Union[Person, List[tuple[Person, Decimal]]]\<close> is one person or a list
  of persons with the amounts they paid.
\<close>

datatype payers = Single person | Multi "(person \<times> decimal) list"

record activity =
  activity_id :: "128 word"
  description :: string
  amount :: decimal
  payer :: payers
  participants :: "person list"
  split_strategy :: SplitStrategy
  weights :: "balances option"
  shares :: "balances option"
  currency :: string

text \<open>
  \<^verbatim>\<open>for person, amt in self.payer: validate_amount(amt, ...)\<close> and the same loop over the
  fixed shares: the first negative amount raises.
\<close>

fun validate_amounts :: "(person \<times> decimal) list \<Rightarrow> error + unit" where
  "validate_amounts [] = Inr ()"
| "validate_amounts ((p, amt) # rest) =
     (case validate_amount amt of Inl e \<Rightarrow> Inl e | Inr _ \<Rightarrow> validate_amounts rest)"

text \<open>
  The payer part of \<^verbatim>\<open>Activity.__post_init__\<close>:
  \<^verbatim>\<open>
  if not self.payer:
      raise ValidationError("Activity must have at least one payer")
  if isinstance(self.payer, list):
      ...
      payer_total = sum(amt for _, amt in self.payer)
      if abs(payer_total - self.amount) > Decimal("0.01"):
          raise ValidationError(...)
      for person, amt in self.payer:
          validate_amount(amt, ...)
  \<close>
  A Person is never falsy; a list is falsy when empty.
\<close>

definition validate_payer :: "payers \<Rightarrow> decimal \<Rightarrow> error + unit" where
  "validate_payer py amt =
     (case py of
        Single p \<Rightarrow> Inr ()
      | Multi ps \<Rightarrow>
          if ps = [] then Inl ValidationError
          else case sum_values ps of
                 Inl e \<Rightarrow> Inl e
               | Inr payer_total \<Rightarrow>
                   (case abs_diff payer_total amt of
                      Inl e \<Rightarrow> Inl e
                    | Inr d \<Rightarrow>
                        if d > 1 / 100 then Inl ValidationError else validate_amounts ps))"

text \<open>
  The strategy part of \<^verbatim>\<open>Activity.__post_init__\<close>, which returns the weights the
  activity keeps:
  \<^verbatim>\<open>
  if self.split_strategy == SplitStrategy.WEIGHTED:
      if not self.weights:
          raise ValidationError("WEIGHTED strategy requires weights")
      weight_sum = sum(self.weights.values())
      if abs(weight_sum - Decimal("1.0")) > Decimal("0.01"):
          # Re-normalize if close
          if weight_sum > 0:
              self.weights = {p: w / weight_sum for p, w in self.weights.items()}
          else:
              raise ValidationError(...)
  elif self.split_strategy == SplitStrategy.FIXED_SHARES:
      if not self.shares:
          raise ValidationError("FIXED_SHARES strategy requires shares")
      shares_sum = sum(self.shares.values())
      if abs(shares_sum - self.amount) > Decimal("0.01"):
          raise ValidationError(...)
      for person, share in self.shares.items():
          validate_amount(share, ...)
  \<close>
  \<^verbatim>\<open>not self.weights\<close> holds for \<^verbatim>\<open>None\<close> and for the empty dictionary.
\<close>

definition absent :: "balances option \<Rightarrow> bool" where
  "absent d = (case d of None \<Rightarrow> True | Some kvs \<Rightarrow> kvs = [])"

definition entries :: "balances option \<Rightarrow> balances" where
  "entries d = (case d of None \<Rightarrow> [] | Some kvs \<Rightarrow> kvs)"

text \<open>\<^verbatim>\<open>{p: w / weight_sum for p, w in self.weights.items()}\<close>\<close>

fun renormalize :: "balances \<Rightarrow> decimal \<Rightarrow> error + balances" where
  "renormalize [] weight_sum = Inr []"
| "renormalize ((p, w) # rest) weight_sum =
     (case dec_div w weight_sum of
        Inl e \<Rightarrow> Inl e
      | Inr w' \<Rightarrow>
          (case renormalize rest weight_sum of
             Inl e \<Rightarrow> Inl e
           | Inr rest' \<Rightarrow> Inr ((p, w') # rest')))"

definition validate_strategy :: "activity \<Rightarrow> error + activity" where
  "validate_strategy a =
     (case split_strategy a of
        WEIGHTED \<Rightarrow>
          if absent (weights a) then Inl ValidationError
          else
            (case sum_values (entries (weights a)) of
               Inl e \<Rightarrow> Inl e
             | Inr weight_sum \<Rightarrow>
                 (case abs_diff weight_sum 1 of
                    Inl e \<Rightarrow> Inl e
                  | Inr d \<Rightarrow>
                      if d > 1 / 100 then
                        (if weight_sum > 0
                         then case renormalize (entries (weights a)) weight_sum of
                                Inl e \<Rightarrow> Inl e
                              | Inr ws \<Rightarrow> Inr (a\<lparr>weights := Some ws\<rparr>)
                         else Inl ValidationError)
                      else Inr a))
      | FIXED_SHARES \<Rightarrow>
          if absent (shares a) then Inl ValidationError
          else (case sum_values (entries (shares a)) of
                  Inl e \<Rightarrow> Inl e
                | Inr shares_sum \<Rightarrow>
                    (case abs_diff shares_sum (amount a) of
                       Inl e \<Rightarrow> Inl e
                     | Inr d \<Rightarrow>
                         if d > 1 / 100 then Inl ValidationError
                         else (case validate_amounts (entries (shares a)) of
                                 Inl e \<Rightarrow> Inl e
                               | Inr _ \<Rightarrow> Inr a)))
      | EQUAL \<Rightarrow> Inr a)"

text \<open>
  \<^verbatim>\<open>Activity.__post_init__\<close> runs on the instance the dataclass has filled from the
  constructor's arguments, and leaves either an exception or the validated activity:
  \<^verbatim>\<open>
  validate_amount(self.amount, "activity amount")
  if not self.description or not self.description.strip():
      raise ValidationError("Activity description cannot be empty")
  if not self.participants:
      raise ValidationError("Activity must have at least one participant")
  \<close>
  followed by the payer part and the strategy part above.
\<close>

definition Activity :: "activity \<Rightarrow> error + activity" where
  "Activity a =
     (case validate_amount (amount a) of
        Inl e \<Rightarrow> Inl e
      | Inr _ \<Rightarrow>
          if blank (description a) then Inl ValidationError
          else if participants a = [] then Inl ValidationError
          else (case validate_payer (payer a) (amount a) of
                  Inl e \<Rightarrow> Inl e
                | Inr _ \<Rightarrow> validate_strategy a))"

text \<open>
  \<^verbatim>\<open>
  def get_payers(self):
      if isinstance(self.payer, list):
          return self.payer
      return [(self.payer, self.amount)]
  \<close>
\<close>

definition get_payers :: "activity \<Rightarrow> (person \<times> decimal) list" where
  "get_payers a = (case payer a of Multi ps \<Rightarrow> ps | Single p \<Rightarrow> [(p, amount a)])"

section \<open>models.py: SettlementTransfer\<close>

text \<open>
  \<^verbatim>\<open>
  @dataclass
  class SettlementTransfer:
      from_person: Person
      to_person: Person
      amount: Decimal = Decimal("0")
      def __post_init__(self):
          validate_amount(self.amount, "transfer amount")
          self.amount = round_money(self.amount)
  \<close>
  The field \<^verbatim>\<open>amount\<close> is \<open>t_amount\<close> here, to keep it apart from the amount of an
  activity.
\<close>

record settlement_transfer =
  from_person :: person
  to_person :: person
  t_amount :: decimal

definition SettlementTransfer :: "person \<Rightarrow> person \<Rightarrow> decimal \<Rightarrow> error + settlement_transfer" where
  "SettlementTransfer f t amt =
     (case validate_amount amt of
        Inl e \<Rightarrow> Inl e
      | Inr _ \<Rightarrow>
          (case round_money amt 2 of
             Inl e \<Rightarrow> Inl e
           | Inr r \<Rightarrow> Inr \<lparr>from_person = f, to_person = t, t_amount = r\<rparr>))"

section \<open>strategies.py\<close>

text \<open>
  \<^verbatim>\<open>
  def compute_equal_share(activity, participant):
      if participant not in activity.participants:
          raise StrategyError(...)
      num_participants = len(activity.participants)
      if num_participants == 0:
          return Decimal("0")
      share = activity.amount / Decimal(num_participants)
      return round_money(share)
  \<close>
\<close>

definition compute_equal_share :: "activity \<Rightarrow> person \<Rightarrow> error + decimal" where
  "compute_equal_share a participant =
     (if participant \<notin> set (participants a) then Inl StrategyError
      else
        let num_participants = length (participants a)
        in if num_participants = 0 then Inr 0
           else case dec_div (amount a) (of_nat num_participants) of
                  Inl e \<Rightarrow> Inl e
                | Inr share \<Rightarrow> round_money share 2)"

text \<open>
  \<^verbatim>\<open>
  def compute_weighted_share(activity, participant):
      if not activity.weights:
          raise StrategyError(...)
      if participant not in activity.weights:
          raise StrategyError(...)
      weight = activity.weights[participant]
      share = activity.amount * weight
      return round_money(share)
  \<close>
\<close>

definition compute_weighted_share :: "activity \<Rightarrow> person \<Rightarrow> error + decimal" where
  "compute_weighted_share a participant =
     (if absent (weights a) then Inl StrategyError
      else case map_of (entries (weights a)) participant of
             None \<Rightarrow> Inl StrategyError
           | Some weight \<Rightarrow>
               (case dec_mul (amount a) weight of
                  Inl e \<Rightarrow> Inl e
                | Inr share \<Rightarrow> round_money share 2))"

text \<open>
  \<^verbatim>\<open>
  def compute_fixed_share(activity, participant):
      if not activity.shares:
          raise StrategyError(...)
      if participant not in activity.shares:
          raise StrategyError(...)
      share = activity.shares[participant]
      return round_money(share)
  \<close>
\<close>

definition compute_fixed_share :: "activity \<Rightarrow> person \<Rightarrow> error + decimal" where
  "compute_fixed_share a participant =
     (if absent (shares a) then Inl StrategyError
      else case map_of (entries (shares a)) participant of
             None \<Rightarrow> Inl StrategyError
           | Some share \<Rightarrow> round_money share 2)"

text \<open>
  \<^verbatim>\<open>compute_participant_share\<close> dispatches on the strategy tag; its last branch, for a
  tag that is none of the three, cannot be reached with a value of the enumeration.
\<close>

definition compute_participant_share :: "activity \<Rightarrow> person \<Rightarrow> error + decimal" where
  "compute_participant_share a participant =
     (case split_strategy a of
        EQUAL \<Rightarrow> compute_equal_share a participant
      | WEIGHTED \<Rightarrow> compute_weighted_share a participant
      | FIXED_SHARES \<Rightarrow> compute_fixed_share a participant)"

text \<open>
  \<^verbatim>\<open>
  def compute_all_shares(activity):
      shares = {}
      for participant in activity.participants:
          shares[participant] = compute_participant_share(activity, participant)
      return shares
  \<close>
\<close>

fun all_shares_loop :: "activity \<Rightarrow> person list \<Rightarrow> balances \<Rightarrow> error + balances" where
  "all_shares_loop a [] result = Inr result"
| "all_shares_loop a (participant # rest) result =
     (case compute_participant_share a participant of
        Inl e \<Rightarrow> Inl e
      | Inr s \<Rightarrow> all_shares_loop a rest (AList.update participant s result))"

definition compute_all_shares :: "activity \<Rightarrow> error + balances" where
  "compute_all_shares a = all_shares_loop a (participants a) []"

section \<open>models.py: Event\<close>

text \<open>
  An event owns its people and its activities. The fields \<^verbatim>\<open>id\<close>, \<^verbatim>\<open>name\<close> and
  \<^verbatim>\<open>currency\<close> are \<open>event_id\<close>, \<open>event_name\<close> and \<open>event_currency\<close> here.
\<close>

record event =
  event_id :: "128 word"
  event_name :: string
  people :: "person list"
  activities :: "activity list"
  event_currency :: string

text \<open>
  \<^verbatim>\<open>SplitStrategy(split_strategy)\<close> looks a tag up by its value and raises \<^verbatim>\<open>ValueError\<close>
  for a string that is no tag. The enumeration derives from \<^verbatim>\<open>str\<close>, so a member passed
  as argument takes this path as well and comes back unchanged.
\<close>

definition parse_strategy :: "string \<Rightarrow> error + SplitStrategy" where
  "parse_strategy s =
     (if s = ''EQUAL'' then Inr EQUAL
      else if s = ''WEIGHTED'' then Inr WEIGHTED
      else if s = ''FIXED_SHARES'' then Inr FIXED_SHARES
      else Inl ValueError)"

text \<open>The persons a payer argument names, in the order the membership loop visits them.\<close>

definition payer_persons :: "payers \<Rightarrow> person list" where
  "payer_persons py = (case py of Single p \<Rightarrow> [p] | Multi ps \<Rightarrow> map fst ps)"

text \<open>
  \<^verbatim>\<open>
  def add_activity(self, description, amount, payer, participants,
                   split_strategy="EQUAL", weights=None, shares=None):
      event_people_set = set(self.people)
      if isinstance(payer, list):
          for p, _ in payer:
              if p not in event_people_set:
                  raise ValidationError(...)
      else:
          if payer not in event_people_set:
              raise ValidationError(...)
      for participant in participants:
          if participant not in event_people_set:
              raise ValidationError(...)
      if isinstance(split_strategy, str):
          split_strategy = SplitStrategy(split_strategy)
      activity = Activity(description=description, amount=amount, payer=payer,
                          participants=participants, split_strategy=split_strategy,
                          weights=weights, shares=shares, currency=self.currency)
      self.activities.append(activity)
      return activity
  \<close>
  The method works on the event it is called on. The model takes the event as the state
  before the call and returns, beside the activity or the exception, the event as the
  call leaves it. The fresh identifier that \<^verbatim>\<open>uuid4\<close> draws for the activity is the
  argument \<open>new_id\<close>.
\<close>

definition add_activity ::
  "128 word \<Rightarrow> string \<Rightarrow> decimal \<Rightarrow> payers \<Rightarrow> person list \<Rightarrow> string \<Rightarrow>
   balances option \<Rightarrow> balances option \<Rightarrow> event \<Rightarrow> (error + activity) \<times> event" where
  "add_activity new_id descr amt py parts strategy ws shs self =
     (let event_people_set = set (people self)
      in if \<exists>p \<in> set (payer_persons py). p \<notin> event_people_set
         then (Inl ValidationError, self)
         else if \<exists>participant \<in> set parts. participant \<notin> event_people_set
         then (Inl ValidationError, self)
         else (case parse_strategy strategy of
                 Inl e \<Rightarrow> (Inl e, self)
               | Inr tag \<Rightarrow>
                   (case Activity \<lparr>activity_id = new_id, description = descr, amount = amt,
                                   payer = py, participants = parts, split_strategy = tag,
                                   weights = ws, shares = shs,
                                   currency = event_currency self\<rparr> of
                      Inl e \<Rightarrow> (Inl e, self)
                    | Inr act \<Rightarrow>
                        (Inr act, self\<lparr>activities := activities self @ [act]\<rparr>))))"

text \<open>
  \<^verbatim>\<open>
  def add_person(self, name):
      person = Person(name=name)
      self.people.append(person)
      return person
  \<close>
\<close>

definition add_person :: "128 word \<Rightarrow> string \<Rightarrow> event \<Rightarrow> (error + person) \<times> event" where
  "add_person new_id n self =
     (case Person n new_id of
        Inl e \<Rightarrow> (Inl e, self)
      | Inr p \<Rightarrow> (Inr p, self\<lparr>people := people self @ [p]\<rparr>))"

section \<open>compute.py: net balances\<close>

text \<open>
  \<^verbatim>\<open>
  for participant, share in shares.items():
      balances[participant] -= share
  for payer, amount in activity.get_payers():
      balances[payer] += amount
  \<close>
\<close>

fun subtract_shares :: "(person \<times> decimal) list \<Rightarrow> balances \<Rightarrow> error + balances" where
  "subtract_shares [] bal = Inr bal"
| "subtract_shares ((participant, share) # rest) bal =
     (case dict_sub participant share bal of
        Inl e \<Rightarrow> Inl e
      | Inr bal' \<Rightarrow> subtract_shares rest bal')"

fun add_payments :: "(person \<times> decimal) list \<Rightarrow> balances \<Rightarrow> error + balances" where
  "add_payments [] bal = Inr bal"
| "add_payments ((p, amt) # rest) bal =
     (case dict_add p amt bal of
        Inl e \<Rightarrow> Inl e
      | Inr bal' \<Rightarrow> add_payments rest bal')"

text \<open>The loop over the activities of \<^verbatim>\<open>compute_net_balances\<close>.\<close>

fun process_activities :: "activity list \<Rightarrow> balances \<Rightarrow> error + balances" where
  "process_activities [] bal = Inr bal"
| "process_activities (a # rest) bal =
     (case compute_all_shares a of
        Inl e \<Rightarrow> Inl e
      | Inr shs \<Rightarrow>
          (case subtract_shares shs bal of
             Inl e \<Rightarrow> Inl e
           | Inr bal1 \<Rightarrow>
               (case add_payments (get_payers a) bal1 of
                  Inl e \<Rightarrow> Inl e
                | Inr bal2 \<Rightarrow> process_activities rest bal2)))"

text \<open>\<^verbatim>\<open>{person: Decimal("0") for person in event.people}\<close>\<close>

definition zero_balances :: "person list \<Rightarrow> balances" where
  "zero_balances ps = foldl (\<lambda>d p. AList.update p 0 d) [] ps"

text \<open>
  \<^verbatim>\<open>{person: round_money(balance) for person, balance in balances.items()}\<close>: the
  entries are rounded in order, and the first \<^verbatim>\<open>round_money\<close> that raises ends the
  comprehension.
\<close>

fun round_all :: "balances \<Rightarrow> error + balances" where
  "round_all [] = Inr []"
| "round_all ((p, b) # rest) =
     (case round_money b 2 of
        Inl e \<Rightarrow> Inl e
      | Inr r \<Rightarrow> (case round_all rest of Inl e \<Rightarrow> Inl e | Inr rest' \<Rightarrow> Inr ((p, r) # rest')))"

text \<open>
  \<^verbatim>\<open>
  def compute_net_balances(event):
      balances = {person: Decimal("0") for person in event.people}
      for activity in event.activities:
          ...
      balances = {person: round_money(balance) for person, balance in balances.items()}
      balances = ensure_zero_sum(balances, tolerance=Decimal("0.02"))
      return balances
  \<close>
\<close>

definition compute_net_balances :: "event \<Rightarrow> error + balances" where
  "compute_net_balances ev =
     (case process_activities (activities ev) (zero_balances (people ev)) of
        Inl e \<Rightarrow> Inl e
      | Inr bal \<Rightarrow>
          (case round_all bal of
             Inl e \<Rightarrow> Inl e
           | Inr rounded \<Rightarrow> ensure_zero_sum rounded (2 / 100)))"

section \<open>compute.py: minimal transfers\<close>

text \<open>
  \<^verbatim>\<open>
  creditors = [(p, b) for p, b in working_balances.items() if b > tolerance]
  debtors = [(p, b) for p, b in working_balances.items() if b < -tolerance]
  \<close>
  The condition of the second comprehension negates the tolerance for every item it
  tests, so a tolerance whose negation overflows raises as soon as there is one item.
\<close>

definition creditors_of :: "decimal \<Rightarrow> balances \<Rightarrow> balances" where
  "creditors_of tolerance working_balances = filter (\<lambda>(p, b). b > tolerance) working_balances"

definition debtors_of :: "decimal \<Rightarrow> balances \<Rightarrow> error + balances" where
  "debtors_of tolerance working_balances =
     (if working_balances = [] then Inr []
      else case dec_neg tolerance of
             Inl e \<Rightarrow> Inl e
           | Inr negated \<Rightarrow> Inr (filter (\<lambda>(p, b). b < negated) working_balances))"

text \<open>
  \<^verbatim>\<open>
  creditors.sort(key=lambda x: (-x[1], x[0].name, str(x[0].id)))
  debtors.sort(key=lambda x: (x[1], x[0].name, str(x[0].id)))
  \<close>
  \<^verbatim>\<open>str\<close> of a UUID is its 32 hexadecimal digits in lower case, in fixed positions, so
  these strings are ordered as the 128-bit numbers are. \<^verbatim>\<open>list.sort\<close> computes the key
  of every item, in order, before it compares; the key of a creditor negates the balance,
  which is a rounding operation and can overflow. The sort is stable.
\<close>

fun creditor_keys :: "balances \<Rightarrow> error + (decimal \<times> person \<times> decimal) list" where
  "creditor_keys [] = Inr []"
| "creditor_keys ((p, b) # rest) =
     (case dec_neg b of
        Inl e \<Rightarrow> Inl e
      | Inr k \<Rightarrow>
          (case creditor_keys rest of
             Inl e \<Rightarrow> Inl e
           | Inr ks \<Rightarrow> Inr ((k, p, b) # ks)))"

definition sort_creditors :: "balances \<Rightarrow> error + balances" where
  "sort_creditors creditors =
     (case creditor_keys creditors of
        Inl e \<Rightarrow> Inl e
      | Inr ks \<Rightarrow> Inr (map snd (sort_key (\<lambda>(k, p, b). (k, name p, ident p)) ks)))"

definition debtor_key :: "person \<times> decimal \<Rightarrow> decimal \<times> string \<times> 128 word" where
  "debtor_key x = (snd x, name (fst x), ident (fst x))"

definition sort_debtors :: "balances \<Rightarrow> balances" where
  "sort_debtors debtors = sort_key debtor_key debtors"

text \<open>
  The updates of the working dictionary at the end of a pass:
  \<^verbatim>\<open>
  working_balances[creditor_person] -= transfer_amount
  working_balances[debtor_person] += transfer_amount
  working_balances[creditor_person] = round_money(working_balances[creditor_person])
  working_balances[debtor_person] = round_money(working_balances[debtor_person])
  \<close>
\<close>

definition round_entry :: "person \<Rightarrow> balances \<Rightarrow> error + balances" where
  "round_entry k d =
     (case map_of d k of
        None \<Rightarrow> Inl KeyError
      | Some b \<Rightarrow>
          (case round_money b 2 of
             Inl e \<Rightarrow> Inl e
           | Inr r \<Rightarrow> Inr (AList.update k r d)))"

definition settle_pair :: "person \<Rightarrow> person \<Rightarrow> decimal \<Rightarrow> balances \<Rightarrow> error + balances" where
  "settle_pair creditor_person debtor_person transfer_amount wb =
     (case dict_sub creditor_person transfer_amount wb of
        Inl e \<Rightarrow> Inl e
      | Inr wb1 \<Rightarrow>
          (case dict_add debtor_person transfer_amount wb1 of
             Inl e \<Rightarrow> Inl e
           | Inr wb2 \<Rightarrow>
               (case round_entry creditor_person wb2 of
                  Inl e \<Rightarrow> Inl e
                | Inr wb3 \<Rightarrow> round_entry debtor_person wb3)))"

text \<open>
  One pass of the body of \<^verbatim>\<open>while True\<close>, from the two sorts on; \<open>creditors\<close> and
  \<open>debtors\<close> are the two lists, which the loop has found not empty:
  \<^verbatim>\<open>
  creditor_person, creditor_balance = creditors[0]
  debtor_person, debtor_balance = debtors[0]
  transfer_amount = min(creditor_balance, -debtor_balance)
  transfer_amount = round_money(transfer_amount)
  transfers.append(SettlementTransfer(from_person=debtor_person,
                                      to_person=creditor_person,
                                      amount=transfer_amount))
  \<close>
  followed by the four updates above. \<^verbatim>\<open>min\<close> compares and returns one of its
  arguments; it does not round.
\<close>

definition greedy_step ::
  "balances \<Rightarrow> balances \<Rightarrow> balances \<Rightarrow> error + settlement_transfer \<times> balances" where
  "greedy_step creditors debtors wb =
     (case sort_creditors creditors of
        Inl e \<Rightarrow> Inl e
      | Inr sorted_creditors \<Rightarrow>
          let (creditor_person, creditor_balance) = hd sorted_creditors;
              (debtor_person, debtor_balance) = hd (sort_debtors debtors)
          in case dec_neg debtor_balance of
               Inl e \<Rightarrow> Inl e
             | Inr debt \<Rightarrow>
                 (case round_money (min creditor_balance debt) 2 of
                    Inl e \<Rightarrow> Inl e
                  | Inr transfer_amount \<Rightarrow>
                      (case SettlementTransfer debtor_person creditor_person transfer_amount of
                         Inl e \<Rightarrow> Inl e
                       | Inr t \<Rightarrow>
                           (case settle_pair creditor_person debtor_person transfer_amount wb of
                              Inl e \<Rightarrow> Inl e
                            | Inr wb' \<Rightarrow> Inr (t, wb')))))"

text \<open>
  The loop \<^verbatim>\<open>while True\<close>. It has no bound of its own (with a negative tolerance a
  person of balance 0 is creditor and debtor at once, the transfer is 0 and nothing
  changes), so the model counts passes: \<open>fuel\<close> is the number of transfers the loop may
  still generate, and \<open>None\<close> means that the loop needed more. A result \<open>Some (Inr
  (wb, ts))\<close> is the working dictionary and the transfers when the loop leaves through
  \<^verbatim>\<open>break\<close>; \<open>Some (Inl e)\<close> is an exception raised inside the loop.
\<close>

fun greedy_loop ::
  "nat \<Rightarrow> decimal \<Rightarrow> balances \<Rightarrow> settlement_transfer list \<Rightarrow>
   (error + balances \<times> settlement_transfer list) option" where
  "greedy_loop fuel tolerance wb transfers =
     (case debtors_of tolerance wb of
        Inl e \<Rightarrow> Some (Inl e)
      | Inr debtors \<Rightarrow>
          if creditors_of tolerance wb = [] \<or> debtors = []
          then Some (Inr (wb, transfers))
          else case fuel of
                 0 \<Rightarrow> None
               | Suc n \<Rightarrow>
                   (case greedy_step (creditors_of tolerance wb) debtors wb of
                      Inl e \<Rightarrow> Some (Inl e)
                    | Inr (t, wb') \<Rightarrow> greedy_loop n tolerance wb' (transfers @ [t])))"

text \<open>
  The check after the loop:
  \<^verbatim>\<open>
  for person, balance in working_balances.items():
      if abs(balance) > tolerance:
          raise RoundingError(...)
  \<close>
\<close>

fun final_check :: "decimal \<Rightarrow> balances \<Rightarrow> error + unit" where
  "final_check tolerance [] = Inr ()"
| "final_check tolerance ((p, b) # rest) =
     (case dec_abs b of
        Inl e \<Rightarrow> Inl e
      | Inr a \<Rightarrow> if a > tolerance then Inl RoundingError else final_check tolerance rest)"

text \<open>
  \<^verbatim>\<open>
  transfers.sort(key=lambda t: (t.from_person.name, str(t.from_person.id),
                                t.to_person.name, str(t.to_person.id)))
  \<close>
\<close>

definition transfer_key :: "settlement_transfer \<Rightarrow> string \<times> 128 word \<times> string \<times> 128 word" where
  "transfer_key t =
     (name (from_person t), ident (from_person t), name (to_person t), ident (to_person t))"

text \<open>
  \<^verbatim>\<open>
  def compute_minimal_transfers(balances, tolerance=Decimal("0.02")):
      working_balances = balances.copy()
      transfers = []
      while True:
          ...
      for person, balance in working_balances.items():
          if abs(balance) > tolerance:
              raise RoundingError(...)
      transfers.sort(key=...)
      return transfers
  \<close>
\<close>

definition compute_minimal_transfers ::
  "nat \<Rightarrow> balances \<Rightarrow> decimal \<Rightarrow> (error + settlement_transfer list) option" where
  "compute_minimal_transfers fuel bal tolerance =
     (case greedy_loop fuel tolerance bal [] of
        None \<Rightarrow> None
      | Some (Inl e) \<Rightarrow> Some (Inl e)
      | Some (Inr (working_balances, transfers)) \<Rightarrow>
          (case final_check tolerance working_balances of
             Inl e \<Rightarrow> Some (Inl e)
           | Inr _ \<Rightarrow> Some (Inr (sort_key transfer_key transfers))))"

section \<open>compute.py: settlement summary\<close>

record summary_row =
  paid :: decimal
  owed :: decimal
  net :: decimal

text \<open>
  The loop over the activities of \<^verbatim>\<open>compute_settlement_summary\<close>:
  \<^verbatim>\<open>
  for activity in event.activities:
      for payer, amount in activity.get_payers():
          paid[payer] += amount
      shares = compute_all_shares(activity)
      for participant, share in shares.items():
          owed[participant] += share
  \<close>
\<close>

fun summary_totals :: "activity list \<Rightarrow> balances \<Rightarrow> balances \<Rightarrow> error + balances \<times> balances" where
  "summary_totals [] pd ow = Inr (pd, ow)"
| "summary_totals (a # rest) pd ow =
     (case add_payments (get_payers a) pd of
        Inl e \<Rightarrow> Inl e
      | Inr pd' \<Rightarrow>
          (case compute_all_shares a of
             Inl e \<Rightarrow> Inl e
           | Inr shs \<Rightarrow>
               (case add_payments shs ow of
                  Inl e \<Rightarrow> Inl e
                | Inr ow' \<Rightarrow> summary_totals rest pd' ow')))"

text \<open>
  \<^verbatim>\<open>
  for person in sorted(event.people, key=lambda x: (x.name, str(x.id))):
      summary[person] = {"paid": round_money(paid[person]),
                         "owed": round_money(owed[person]),
                         "net": balances[person]}
  \<close>
  \<^verbatim>\<open>paid\<close> and \<^verbatim>\<open>owed\<close> hold every person of the event; \<^verbatim>\<open>balances\<close> is the caller's.
\<close>

fun summary_rows ::
  "person list \<Rightarrow> balances \<Rightarrow> balances \<Rightarrow> balances \<Rightarrow> (person \<times> summary_row) list \<Rightarrow>
   error + (person \<times> summary_row) list" where
  "summary_rows [] pd ow bal summary = Inr summary"
| "summary_rows (p # rest) pd ow bal summary =
     (case map_of pd p of
        None \<Rightarrow> Inl KeyError
      | Some x \<Rightarrow>
          (case round_money x 2 of
             Inl e \<Rightarrow> Inl e
           | Inr x' \<Rightarrow>
               (case map_of ow p of
                  None \<Rightarrow> Inl KeyError
                | Some y \<Rightarrow>
                    (case round_money y 2 of
                       Inl e \<Rightarrow> Inl e
                     | Inr y' \<Rightarrow>
                         (case map_of bal p of
                            None \<Rightarrow> Inl KeyError
                          | Some z \<Rightarrow>
                              summary_rows rest pd ow bal
                                (AList.update p \<lparr>paid = x', owed = y', net = z\<rparr> summary))))))"

definition compute_settlement_summary ::
  "event \<Rightarrow> balances \<Rightarrow> error + (person \<times> summary_row) list" where
  "compute_settlement_summary ev bal =
     (case summary_totals (activities ev) (zero_balances (people ev)) (zero_balances (people ev)) of
        Inl e \<Rightarrow> Inl e
      | Inr (pd, ow) \<Rightarrow>
          summary_rows (sort_key (\<lambda>x. (name x, ident x)) (people ev)) pd ow bal [])"

section \<open>Example data\<close>

text \<open>Persons and events on which the functions above are run further down.\<close>

definition alice :: person where
  "alice = \<lparr>name = ''Alice'', ident = 1\<rparr>"

definition bob :: person where
  "bob = \<lparr>name = ''Bob'', ident = 2\<rparr>"

definition carol :: person where
  "carol = \<lparr>name = ''Carol'', ident = 3\<rparr>"

definition dave :: person where
  "dave = \<lparr>name = ''Dave'', ident = 4\<rparr>"

text \<open>A dinner of 100 that Alice paid, split equally among Alice, Bob and Carol.\<close>

definition dinner :: activity where
  "dinner =
     \<lparr>activity_id = 16, description = ''Dinner'', amount = 100, payer = Single alice,
      participants = [alice, bob, carol], split_strategy = EQUAL, weights = None,
      shares = None, currency = ''USD''\<rparr>"

definition trip :: event where
  "trip =
     \<lparr>event_id = 32, event_name = ''Trip'', people = [alice, bob, carol],
      activities = [dinner], event_currency = ''USD''\<rparr>"

text \<open>The same trip with Dave, who takes part in nothing.\<close>

definition trip_with_dave :: event where
  "trip_with_dave =
     \<lparr>event_id = 33, event_name = ''Trip'', people = [alice, bob, carol, dave],
      activities = [dinner], event_currency = ''USD''\<rparr>"

text \<open>A museum visit of 90 with the weights 2 for Bob and 1 for Carol, as given to the
  constructor.\<close>

definition museum :: activity where
  "museum =
     \<lparr>activity_id = 17, description = ''Museum'', amount = 90, payer = Single bob,
      participants = [bob, carol], split_strategy = WEIGHTED,
      weights = Some [(bob, 2), (carol, 1)], shares = None, currency = ''USD''\<rparr>"


section \<open>Persons who take part in nothing\<close>

text \<open>
  A person is involved in an activity as one of its participants or as one of its payers.
\<close>

definition involved :: "person \<Rightarrow> activity \<Rightarrow> bool" where
  "involved p a = (p \<in> set (participants a) \<or> p \<in> set (payer_persons (payer a)))"

text \<open>A lunch of 90 that Alice paid, split equally among Alice, Bob and Carol: 30 each.\<close>

definition lunch :: activity where
  "lunch =
     \<lparr>activity_id = 19, description = ''Lunch'', amount = 90, payer = Single alice,
      participants = [alice, bob, carol], split_strategy = EQUAL, weights = None,
      shares = None, currency = ''USD''\<rparr>"

definition outing :: event where
  "outing =
     \<lparr>event_id = 34, event_name = ''Outing'', people = [alice, bob, carol, dave],
      activities = [lunch], event_currency = ''USD''\<rparr>"
section \<open>Properties of rounding\<close>
















text \<open>
  The bound of 28 digits is met at everyday place counts: an amount of \<open>10 ^ 26\<close> has 29
  digits at 2 places, and 1.5 has 29 digits at 28 places.
\<close>

lemma round_money_too_many_digits:
  "round_money (10 ^ 26) 2 = Inl InvalidOperation \<and>
   round_money (15 / 10) 28 = Inl InvalidOperation \<and>
   round_money (10545 / 1000) 27 = Inl InvalidOperation \<and>
   round_money (9999999999999999999999999999 / 100) 2 = Inr (9999999999999999999999999999 / 100) \<and>
   round_money (99999999999999999999999999995 / 1000) 2 = Inl InvalidOperation"
proof -
  have a: "round_money (10 ^ 26) 2 = Inl InvalidOperation" by code_simp
  have b: "round_money (15 / 10) 28 = Inl InvalidOperation" by code_simp
  have c: "round_money (10545 / 1000) 27 = Inl InvalidOperation" by code_simp
  have d: "round_money (9999999999999999999999999999 / 100) 2 =
      Inr (9999999999999999999999999999 / 100)" by code_simp
  have e: "round_money (99999999999999999999999999995 / 1000) 2 = Inl InvalidOperation"
    by code_simp
  from a b c d e show ?thesis by blast
qed


section \<open>Reconciliation of the rounded balances\<close>

text \<open>
  C1: for a valid event whose rounded balances sum to a total within the tolerance 0.02,
  the balances that \<open>compute_net_balances\<close> returns are claimed to sum to exactly 0. The
  code does not do that. \<open>ensure_zero_sum\<close> hands the surplus \<open>total\<close> to
  \<open>distribute_remainder\<close> as the remainder, and \<open>distribute_remainder\<close> adds increments
  of the sign of its remainder, so the surplus grows instead of vanishing. For the dinner
  of 100 split three ways the rounded balances are 66.67, -33.33 and -33.33, of sum 0.01;
  the result holds -33.32 for Bob and sums to 0.02. The same happens on the dictionary of
  the package's own test of \<open>ensure_zero_sum\<close> (33.33, -33.33 and 0.01 at tolerance 0.02).
\<close>

theorem ensure_zero_sum_adds_the_surplus:
  "process_activities (activities trip) (zero_balances (people trip)) =
     Inr [(alice, 6667 / 100), (bob, - (3333 / 100)), (carol, - (3333 / 100))] \<and>
   round_all [(alice, 6667 / 100), (bob, - (3333 / 100)), (carol, - (3333 / 100))] =
     Inr [(alice, 6667 / 100), (bob, - (3333 / 100)), (carol, - (3333 / 100))] \<and>
   sum_values [(alice, 6667 / 100), (bob, - (3333 / 100)), (carol, - (3333 / 100))]
     = Inr (1 / 100) \<and>
   compute_net_balances trip =
     Inr [(alice, 6667 / 100), (bob, - (3332 / 100)), (carol, - (3333 / 100))] \<and>
   sum_values [(alice, 6667 / 100), (bob, - (3332 / 100)), (carol, - (3333 / 100))]
     = Inr (2 / 100) \<and>
   ensure_zero_sum [(alice, 3333 / 100), (bob, - (3333 / 100)), (carol, 1 / 100)] (2 / 100) =
     Inr [(alice, 3333 / 100), (bob, - (3333 / 100)), (carol, 2 / 100)]"
proof -
  have a: "process_activities (activities trip) (zero_balances (people trip)) =
      Inr [(alice, 6667 / 100), (bob, - (3333 / 100)), (carol, - (3333 / 100))]"
    by code_simp
  have b: "round_all [(alice, 6667 / 100), (bob, - (3333 / 100)), (carol, - (3333 / 100))] =
      Inr [(alice, 6667 / 100), (bob, - (3333 / 100)), (carol, - (3333 / 100))]"
    by code_simp
  have b': "sum_values [(alice, 6667 / 100), (bob, - (3333 / 100)), (carol, - (3333 / 100))]
      = Inr (1 / 100)"
    by code_simp
  have c: "compute_net_balances trip =
      Inr [(alice, 6667 / 100), (bob, - (3332 / 100)), (carol, - (3333 / 100))]"
    by code_simp
  have d: "sum_values [(alice, 6667 / 100), (bob, - (3332 / 100)), (carol, - (3333 / 100))]
      = Inr (2 / 100)"
    by code_simp
  have e: "ensure_zero_sum [(alice, 3333 / 100), (bob, - (3333 / 100)), (carol, 1 / 100)]
      (2 / 100) = Inr [(alice, 3333 / 100), (bob, - (3333 / 100)), (carol, 2 / 100)]"
    by code_simp
  from a b b' c d e show ?thesis by blast
qed

section \<open>Equality of persons\<close>

text \<open>
  C7, as amended: two persons are equal exactly when both their names and their ids are
  equal. Two persons with different ids are distinct whatever their names, and so are two
  persons with the same id and different names.
\<close>

theorem person_equality:
  "Person n i = Inr p \<Longrightarrow> Person m j = Inr q \<Longrightarrow>
     (p = q) = (n = m \<and> i = j) \<and> (i \<noteq> j \<longrightarrow> p \<noteq> q) \<and> (n \<noteq> m \<longrightarrow> p \<noteq> q)"
  by (auto simp: Person_def split: if_splits)

theorem person_equality_witness:
  "Person ''Alice'' 1 = Inr \<lparr>name = ''Alice'', ident = 1\<rparr> \<and>
   Person ''Alice'' 2 = Inr \<lparr>name = ''Alice'', ident = 2\<rparr> \<and>
   \<lparr>name = ''Alice'', ident = 1 :: 128 word\<rparr> \<noteq> \<lparr>name = ''Alice'', ident = 2\<rparr>"
proof -
  have a: "Person ''Alice'' 1 = Inr \<lparr>name = ''Alice'', ident = 1\<rparr>" by code_simp
  have b: "Person ''Alice'' 2 = Inr \<lparr>name = ''Alice'', ident = 2\<rparr>" by code_simp
  from person_equality [OF a b] a b show ?thesis by simp
qed

text \<open>
  C7 as stated fails: equality is not decided by the id alone. Two persons built with the
  same id and different names are different.
\<close>

theorem person_same_id_counterexample:
  "Person ''Alice'' 7 = Inr \<lparr>name = ''Alice'', ident = 7\<rparr> \<and>
   Person ''Alicia'' 7 = Inr \<lparr>name = ''Alicia'', ident = 7\<rparr> \<and>
   ident \<lparr>name = ''Alice'', ident = 7\<rparr> = ident \<lparr>name = ''Alicia'', ident = 7\<rparr> \<and>
   \<lparr>name = ''Alice'', ident = 7 :: 128 word\<rparr> \<noteq> \<lparr>name = ''Alicia'', ident = 7\<rparr>"
proof -
  have a: "Person ''Alice'' 7 = Inr \<lparr>name = ''Alice'', ident = 7\<rparr>" by code_simp
  have b: "Person ''Alicia'' 7 = Inr \<lparr>name = ''Alicia'', ident = 7\<rparr>" by code_simp
  from a b show ?thesis by simp
qed

section \<open>Weighted activities\<close>

lemma context_round_error: "context_round x = Inl e \<Longrightarrow> e = Overflow"
  by (auto simp: context_round_def round_at_def check_carry_def split: if_splits)

lemma dec_add_error: "dec_add x y = Inl e \<Longrightarrow> e = Overflow"
  unfolding dec_add_def by (rule context_round_error)

lemma dec_sub_error: "dec_sub x y = Inl e \<Longrightarrow> e = Overflow"
  unfolding dec_sub_def by (rule context_round_error)

lemma dec_mul_error: "dec_mul x y = Inl e \<Longrightarrow> e = Overflow"
  unfolding dec_mul_def by (rule context_round_error)

lemma dec_abs_error: "dec_abs x = Inl e \<Longrightarrow> e = Overflow"
  unfolding dec_abs_def by (rule context_round_error)

lemma dec_neg_error: "dec_neg x = Inl e \<Longrightarrow> e = Overflow"
  unfolding dec_neg_def by (rule context_round_error)

lemma dec_div_error: "y \<noteq> 0 \<Longrightarrow> dec_div x y = Inl e \<Longrightarrow> e = Overflow"
  unfolding dec_div_def by (auto dest: context_round_error)

lemma abs_diff_error: "abs_diff x y = Inl e \<Longrightarrow> e = Overflow"
  by (auto simp: abs_diff_def split: sum.splits dest: dec_sub_error dec_abs_error)

lemma sum_from_error: "sum_from acc vs = Inl e \<Longrightarrow> e = Overflow"
  by (induction vs arbitrary: acc) (auto split: sum.splits dest: dec_add_error)

lemma sum_values_error: "sum_values d = Inl e \<Longrightarrow> e = Overflow"
  unfolding sum_values_def by (rule sum_from_error)

lemma renormalize_error: "0 < s \<Longrightarrow> renormalize ws s = Inl e \<Longrightarrow> e = Overflow"
proof (induction ws s rule: renormalize.induct)
  case (1 weight_sum)
  then show ?case by simp
next
  case (2 p w rest weight_sum)
  from "2.prems"(1) have nz: "weight_sum \<noteq> 0" by simp
  from "2.prems" "2.IH" show ?case
    by (auto split: sum.splits dest: dec_div_error [OF nz])
qed



lemma validate_amounts_error: "validate_amounts xs = Inl e \<Longrightarrow> e = ValidationError"
  by (induction xs rule: validate_amounts.induct)
     (auto simp: validate_amount_def split: if_splits sum.splits)

lemma validate_payer_error:
  "validate_payer py amt = Inl e \<Longrightarrow> e = ValidationError \<or> e = Overflow"
  by (auto simp: validate_payer_def split: payers.splits if_splits sum.splits
           dest: validate_amounts_error sum_values_error abs_diff_error)

lemma validate_strategy_error:
  "validate_strategy a = Inl e \<Longrightarrow> e = ValidationError \<or> e = Overflow"
  by (auto simp: validate_strategy_def
           split: SplitStrategy.splits if_splits sum.splits
           dest: validate_amounts_error sum_values_error abs_diff_error renormalize_error)

lemma Activity_error: "Activity a = Inl e \<Longrightarrow> e = ValidationError \<or> e = Overflow"
  by (auto simp: Activity_def validate_amount_def
           split: if_splits sum.splits dest: validate_payer_error validate_strategy_error)

lemma Activity_invariant:
  "amount a < 0 \<or> blank (description a) \<or> participants a = [] \<Longrightarrow>
     Activity a = Inl ValidationError"
  by (auto simp: Activity_def validate_amount_def)






text \<open>
  Two runs where the 28 digits of the context decide. The weights \<open>10 ^ 29\<close>, -1,
  \<open>- (10 ^ 29)\<close> and 0.5 sum to 0.5 in Decimal arithmetic, the -1 being lost in the
  second partial sum, so the constructor renormalizes them. An amount of \<open>10 ^ 27\<close> with
  the weights 2 and 1 has a share of 29 digits at 2 places, and computing it raises
  InvalidOperation.
\<close>

lemma weights_lost_digit:
  "sum_values [(alice, 10 ^ 29), (bob, - 1), (carol, - (10 ^ 29)), (dave, 5 / 10)]
     = Inr (5 / 10) \<and>
   (case Activity (museum\<lparr>participants := [alice, bob, carol, dave],
        weights := Some [(alice, 10 ^ 29), (bob, - 1), (carol, - (10 ^ 29)), (dave, 5 / 10)]\<rparr>)
    of Inl e \<Rightarrow> False
     | Inr m \<Rightarrow> weights m =
         Some [(alice, 2 * 10 ^ 29), (bob, - 2), (carol, - (2 * 10 ^ 29)), (dave, 1)])"
proof -
  have a: "sum_values [(alice, 10 ^ 29), (bob, - 1), (carol, - (10 ^ 29)), (dave, 5 / 10)]
      = Inr (5 / 10)"
    by code_simp
  have b: "case Activity (museum\<lparr>participants := [alice, bob, carol, dave],
        weights := Some [(alice, 10 ^ 29), (bob, - 1), (carol, - (10 ^ 29)), (dave, 5 / 10)]\<rparr>)
    of Inl e \<Rightarrow> False
     | Inr m \<Rightarrow> weights m =
         Some [(alice, 2 * 10 ^ 29), (bob, - 2), (carol, - (2 * 10 ^ 29)), (dave, 1)]"
    by code_simp
  from a b show ?thesis by blast
qed

lemma weighted_share_too_many_digits:
  "(case Activity (museum\<lparr>amount := 10 ^ 27\<rparr>) of
      Inl e \<Rightarrow> False
    | Inr m \<Rightarrow> compute_weighted_share m bob = Inl InvalidOperation)"
  by code_simp

section \<open>Adding an activity to an event\<close>

text \<open>
  C10: \<open>add_activity\<close> is atomic on failure. Whenever it raises, the event is left as it
  was: its people and its activities are unchanged. A payer or participant who is not a
  member of the event raises ValidationError, and so does an activity whose amount is
  negative, whose description is blank or that has no participant. An exception of the
  constructor is the exception of \<open>add_activity\<close>; it is ValidationError, or Overflow
  when a sum, difference or quotient of the constructor's own checks overflows. On
  success the people are unchanged and the new activity, validated by its constructor
  from members of the event only, is the last of the activities.
\<close>

theorem add_activity_atomic:
  "add_activity new_id descr amt py parts strategy ws shs self = (r, self') \<Longrightarrow>
     (\<forall>e. r = Inl e \<longrightarrow>
        self' = self \<and> people self' = people self \<and> activities self' = activities self) \<and>
     (\<not> set (payer_persons py) \<subseteq> set (people self) \<or> \<not> set parts \<subseteq> set (people self)
        \<longrightarrow> r = Inl ValidationError) \<and>
     (\<forall>tag. parse_strategy strategy = Inr tag \<and> (amt < 0 \<or> blank descr \<or> parts = [])
        \<longrightarrow> r = Inl ValidationError) \<and>
     (\<forall>tag e. parse_strategy strategy = Inr tag \<and>
        set (payer_persons py) \<subseteq> set (people self) \<and> set parts \<subseteq> set (people self) \<and>
        Activity \<lparr>activity_id = new_id, description = descr, amount = amt, payer = py,
                  participants = parts, split_strategy = tag, weights = ws, shares = shs,
                  currency = event_currency self\<rparr> = Inl e
        \<longrightarrow> r = Inl e \<and> (e = ValidationError \<or> e = Overflow)) \<and>
     (\<forall>act. r = Inr act \<longrightarrow>
        people self' = people self \<and>
        activities self' = activities self @ [act] \<and>
        set (payer_persons py) \<subseteq> set (people self) \<and>
        set parts \<subseteq> set (people self) \<and>
        (\<exists>tag. parse_strategy strategy = Inr tag \<and>
           Activity \<lparr>activity_id = new_id, description = descr, amount = amt, payer = py,
                     participants = parts, split_strategy = tag, weights = ws, shares = shs,
                     currency = event_currency self\<rparr> = Inr act))"
proof -
  assume c: "add_activity new_id descr amt py parts strategy ws shs self = (r, self')"
  let ?a = "\<lambda>tag. \<lparr>activity_id = new_id, description = descr, amount = amt, payer = py,
                  participants = parts, split_strategy = tag, weights = ws, shares = shs,
                  currency = event_currency self\<rparr>"
  have inv: "Activity (?a tag) = Inl ValidationError"
    if "amt < 0 \<or> blank descr \<or> parts = []" for tag
    by (rule Activity_invariant) (use that in simp)
  from c have one: "\<forall>e. r = Inl e \<longrightarrow>
        self' = self \<and> people self' = people self \<and> activities self' = activities self"
    unfolding add_activity_def Let_def by (auto split: if_splits sum.splits)
  from c have two: "\<not> set (payer_persons py) \<subseteq> set (people self) \<or>
      \<not> set parts \<subseteq> set (people self) \<longrightarrow> r = Inl ValidationError"
    unfolding add_activity_def Let_def by (auto split: if_splits sum.splits)
  from c inv have three: "\<forall>tag. parse_strategy strategy = Inr tag \<and>
      (amt < 0 \<or> blank descr \<or> parts = []) \<longrightarrow> r = Inl ValidationError"
    unfolding add_activity_def Let_def by (auto split: if_splits sum.splits)
  from c have four: "\<forall>tag e. parse_strategy strategy = Inr tag \<and>
        set (payer_persons py) \<subseteq> set (people self) \<and> set parts \<subseteq> set (people self) \<and>
        Activity (?a tag) = Inl e
        \<longrightarrow> r = Inl e \<and> (e = ValidationError \<or> e = Overflow)"
    unfolding add_activity_def Let_def
    by (auto split: if_splits sum.splits dest: Activity_error)
  from c have five: "\<forall>act. r = Inr act \<longrightarrow>
        people self' = people self \<and>
        activities self' = activities self @ [act] \<and>
        set (payer_persons py) \<subseteq> set (people self) \<and>
        set parts \<subseteq> set (people self) \<and>
        (\<exists>tag. parse_strategy strategy = Inr tag \<and> Activity (?a tag) = Inr act)"
    unfolding add_activity_def Let_def by (auto split: if_splits sum.splits)
  from one two three four five show ?thesis by blast
qed

theorem add_activity_atomic_witness:
  "add_activity 48 ''Taxi'' 30 (Single dave) [alice] ''EQUAL'' None None trip
     = (Inl ValidationError, trip) \<and>
   \<not> set (payer_persons (Single dave)) \<subseteq> set (people trip) \<and>
   people trip = [alice, bob, carol] \<and> activities trip = [dinner]"
proof -
  have a: "add_activity 48 ''Taxi'' 30 (Single dave) [alice] ''EQUAL'' None None trip
      = (Inl ValidationError, trip)"
    by code_simp
  have b: "\<not> set (payer_persons (Single dave)) \<subseteq> set (people trip)" by code_simp
  have c: "people trip = [alice, bob, carol]" by code_simp
  have d: "activities trip = [dinner]" by code_simp
  from add_activity_atomic [OF a] a b c d show ?thesis by blast
qed

end
